theory Spec2Isabelle
  imports Complex_Main "HOL-Library.Multiset" "HOL-Library.AList"
begin

section \<open>Data model\<close>

text \<open>
  The assignment step works on student and NRT rows as the API returns them.  Only the
  fields the scorer, the matcher, the board and the commit read are kept.  A JavaScript
  string is modelled as a list of 8-bit characters; a text field that is absent in the
  row is the empty string (the scorer reads every field through \<^verbatim>\<open>field || ''\<close>).
\<close>

record student =
  row_index :: int
  status :: string
  class_year :: string
  medical_interests :: string
  research_activities :: string
  extracurricular_activities :: string

record nrt =
  email :: string
  name :: string
  nrt_row_index :: int
  nrt_status :: string
  nrt_medical_interests :: string
  interested_in_research :: string
  interests_outside_medicine :: string

record similarity =
  score :: int
  medicalScore :: int
  researchScore :: int
  hobbyScore :: int
  matching_medical :: "string list"
  matching_research :: "string list"
  matching_hobbies :: "string list"

record score_entry =
  se_student :: student
  se_nrt :: nrt
  se_similarity :: similarity
  remainingCapacity :: int

record assignment =
  a_student :: student
  a_nrt :: nrt
  a_similarity :: similarity

text \<open>
  A JavaScript object used as a dictionary from e-mail addresses to student lists is an
  association list in the order of \<^verbatim>\<open>Object.entries\<close>; \<open>map_of\<close> reads a key and
  \<open>AList.update\<close> writes one (in place when the key exists, at the end otherwise).
\<close>

type_synonym buckets = "(string \<times> student list) list"

section \<open>Text similarity scorer\<close>

definition stopWords :: "string list" where
  "stopWords =
    [''and'', ''the'', ''of'', ''to'', ''a'', ''an'', ''in'', ''on'', ''at'', ''for'', ''with'', ''by'',
     ''from'', ''as'', ''is'', ''are'', ''was'', ''were'', ''be'', ''been'', ''being'', ''have'', ''has'', ''had'',
     ''do'', ''does'', ''did'', ''will'', ''would'', ''could'', ''should'', ''may'', ''might'', ''must'',
     ''can'', ''this'', ''that'', ''these'', ''those'', ''i'', ''you'', ''he'', ''she'', ''it'', ''we'', ''they'',
     ''me'', ''him'', ''her'', ''us'', ''them'', ''my'', ''your'', ''his'', ''her'', ''its'', ''our'', ''their'',
     ''what'', ''which'', ''who'', ''whom'', ''whose'', ''where'', ''when'', ''why'', ''how'',
     ''all'', ''each'', ''every'', ''both'', ''few'', ''more'', ''most'', ''other'', ''some'', ''such'',
     ''no'', ''nor'', ''not'', ''only'', ''own'', ''same'', ''so'', ''than'', ''too'', ''very'',
     ''interested'', ''interest'', ''interests'', ''interested in'', ''about'', ''into'', ''through'',
     ''during'', ''before'', ''after'', ''above'', ''below'', ''up'', ''down'', ''out'', ''off'', ''over'', ''under'',
     ''again'', ''further'', ''then'', ''once'', ''here'', ''there'', ''when'', ''where'', ''why'', ''how'',
     ''all'', ''any'', ''both'', ''each'', ''few'', ''more'', ''most'', ''other'', ''some'', ''such'',
     ''no'', ''nor'', ''not'', ''only'', ''own'', ''same'', ''so'', ''than'', ''too'', ''very'',
     ''s'', ''t'', ''can'', ''will'', ''just'', ''don'', ''should'', ''now'']"

definition toLowerCase_char :: "char \<Rightarrow> char" where
  "toLowerCase_char c =
     (let n = (of_char c :: nat) in if 65 \<le> n \<and> n \<le> 90 then char_of (n + 32) else c)"

definition is_word_char :: "char \<Rightarrow> bool" where
  \<comment> \<open>the regular expression class \<^verbatim>\<open>\w\<close>: letters, digits and the underscore\<close>
  "is_word_char c =
     (let n = (of_char c :: nat) in
        (48 \<le> n \<and> n \<le> 57) \<or> (65 \<le> n \<and> n \<le> 90) \<or> n = 95 \<or> (97 \<le> n \<and> n \<le> 122))"

definition is_space_char :: "char \<Rightarrow> bool" where
  \<comment> \<open>the regular expression class \<^verbatim>\<open>\s\<close> on 8-bit characters\<close>
  "is_space_char c = (let n = (of_char c :: nat) in (9 \<le> n \<and> n \<le> 13) \<or> n = 32 \<or> n = 160)"

definition strip_punctuation :: "string \<Rightarrow> string" where
  \<comment> \<open>\<^verbatim>\<open>.replace(/[^\w\s]/g, ' ')\<close>\<close>
  "strip_punctuation s =
     map (\<lambda>c. if \<not> is_word_char c \<and> \<not> is_space_char c then CHR '' '' else c) s"

text \<open>
  \<^verbatim>\<open>.split(/\s+/)\<close>: every maximal run of white space separates two pieces, so a
  leading or trailing run yields an empty first or last piece and the empty string yields
  one empty piece.  The flag says that the previous character was white space; the
  accumulator holds the current piece reversed.
\<close>

fun split_ws :: "bool \<Rightarrow> string \<Rightarrow> string \<Rightarrow> string list" where
  "split_ws inws acc [] = [rev acc]"
| "split_ws inws acc (c # cs) =
     (if is_space_char c
      then (if inws then split_ws True acc cs else rev acc # split_ws True [] cs)
      else split_ws False (c # acc) cs)"

definition extractWords :: "string \<Rightarrow> string list" where
  "extractWords text =
     (if text = [] then []
      else filter (\<lambda>word. length word > 2 \<and> word \<notin> set stopWords)
             (split_ws False [] (strip_punctuation (map toLowerCase_char text))))"

definition js_includes :: "'a list \<Rightarrow> 'a \<Rightarrow> bool" where
  "js_includes xs x = (x \<in> set xs)"

definition set_size :: "'a list \<Rightarrow> nat" where
  \<comment> \<open>\<^verbatim>\<open>new Set(xs).size\<close>\<close>
  "set_size xs = length (remdups xs)"

text \<open>
  Scores are JavaScript numbers.  They are modelled as exact rationals; \<^verbatim>\<open>Math.round\<close>
  rounds to the nearest integer, a half upwards.
\<close>

definition Math_round :: "rat \<Rightarrow> int" where
  "Math_round x = \<lfloor>x + 1 / 2\<rfloor>"

definition category_score :: "nat \<Rightarrow> nat \<Rightarrow> rat" where
  "category_score matches totalWords =
     (if totalWords > 0 then (of_nat matches / of_nat totalWords) * 100 else 0)"

definition calculateSimilarity :: "student \<Rightarrow> nrt \<Rightarrow> similarity" where
  "calculateSimilarity st n =
     (let studentMedical = extractWords (medical_interests st);
          nrtMedical = extractWords (nrt_medical_interests n);
          studentResearch = extractWords (research_activities st);
          nrtResearch = extractWords (interested_in_research n);
          studentHobbies = extractWords (extracurricular_activities st);
          nrtHobbies = extractWords (interests_outside_medicine n);
          medicalMatches = filter (js_includes nrtMedical) studentMedical;
          researchMatches = filter (js_includes nrtResearch) studentResearch;
          hobbyMatches = filter (js_includes nrtHobbies) studentHobbies;
          totalMedicalWords = set_size (studentMedical @ nrtMedical);
          totalResearchWords = set_size (studentResearch @ nrtResearch);
          totalHobbyWords = set_size (studentHobbies @ nrtHobbies);
          medicalRaw = category_score (length medicalMatches) totalMedicalWords;
          researchRaw = category_score (length researchMatches) totalResearchWords;
          hobbyRaw = category_score (length hobbyMatches) totalHobbyWords;
          totalScore = medicalRaw * (4 / 10) + researchRaw * (4 / 10) + hobbyRaw * (2 / 10)
      in \<lparr> score = Math_round totalScore,
           medicalScore = Math_round medicalRaw,
           researchScore = Math_round researchRaw,
           hobbyScore = Math_round hobbyRaw,
           matching_medical = medicalMatches,
           matching_research = researchMatches,
           matching_hobbies = hobbyMatches \<rparr>)"

section \<open>Capacity-aware matcher\<close>

text \<open>
  \<^verbatim>\<open>Array.prototype.sort\<close> with a comparator is a stable sort; it is modelled as the
  stable insertion sort.  A comparator result that is not a number counts as 0; where a
  comparator is not a consistent ordering the engine may order the elements in any way,
  and the model takes the order the insertion sort gives.
\<close>

fun insert_by :: "('a \<Rightarrow> 'a \<Rightarrow> int) \<Rightarrow> 'a \<Rightarrow> 'a list \<Rightarrow> 'a list" where
  "insert_by cmp x [] = [x]"
| "insert_by cmp x (y # ys) = (if cmp x y \<le> 0 then x # y # ys else y # insert_by cmp x ys)"

definition js_sort :: "('a \<Rightarrow> 'a \<Rightarrow> int) \<Rightarrow> 'a list \<Rightarrow> 'a list" where
  "js_sort cmp xs = foldr (insert_by cmp) xs []"

definition currentCount :: "buckets \<Rightarrow> string \<Rightarrow> nat" where
  \<comment> \<open>\<^verbatim>\<open>(currentAssignments[email] || []).length\<close>\<close>
  "currentCount currentAssignments e =
     (case map_of currentAssignments e of None \<Rightarrow> 0 | Some l \<Rightarrow> length l)"

definition is_available :: "buckets \<Rightarrow> nrt \<Rightarrow> bool" where
  "is_available currentAssignments n =
     (let isActive = (nrt_status n = ''active'');
          isAccepting = (nrt_status n \<noteq> ''leaving, but keeping students'' \<and>
                         nrt_status n \<noteq> ''active, but does not want additional students'' \<and>
                         nrt_status n \<noteq> ''pending approval'')
      in if \<not> isActive \<or> \<not> isAccepting then False
         else currentCount currentAssignments (email n) < 3)"

definition all_scores :: "buckets \<Rightarrow> student list \<Rightarrow> nrt list \<Rightarrow> score_entry list" where
  "all_scores currentAssignments students availableNrts =
     concat (map (\<lambda>st. map (\<lambda>n.
        \<lparr> se_student = st, se_nrt = n, se_similarity = calculateSimilarity st n,
          remainingCapacity = 3 - int (currentCount currentAssignments (email n)) \<rparr>)
        availableNrts) students)"

definition by_score_desc :: "score_entry \<Rightarrow> score_entry \<Rightarrow> int" where
  "by_score_desc a b = score (se_similarity b) - score (se_similarity a)"

definition init_counts :: "buckets \<Rightarrow> nrt list \<Rightarrow> (string \<rightharpoonup> nat)" where
  "init_counts currentAssignments availableNrts =
     fold (\<lambda>n m. m(email n \<mapsto> currentCount currentAssignments (email n))) availableNrts Map.empty"

text \<open>
  One round of the greedy loop.  The state is the list of accepted pairs, the set of
  assigned student row indices and the per-e-mail counters.  A counter that was never
  seeded is \<^verbatim>\<open>undefined\<close>, which is not \<^verbatim>\<open>>= 3\<close> and stays not a number when
  incremented: the pair is accepted and the counters stay as they are.
\<close>

definition greedy_step ::
  "score_entry \<Rightarrow> assignment list \<times> int set \<times> (string \<rightharpoonup> nat)
     \<Rightarrow> assignment list \<times> int set \<times> (string \<rightharpoonup> nat)" where
  "greedy_step e st =
     (case st of (assignments, assignedStudents, nrtCounts) \<Rightarrow>
        if row_index (se_student e) \<in> assignedStudents then st
        else (case nrtCounts (email (se_nrt e)) of
                Some c \<Rightarrow>
                  if c \<ge> 3 then st
                  else (assignments @ [\<lparr> a_student = se_student e, a_nrt = se_nrt e,
                                         a_similarity = se_similarity e \<rparr>],
                        insert (row_index (se_student e)) assignedStudents,
                        nrtCounts(email (se_nrt e) \<mapsto> c + 1))
              | None \<Rightarrow>
                  (assignments @ [\<lparr> a_student = se_student e, a_nrt = se_nrt e,
                                    a_similarity = se_similarity e \<rparr>],
                   insert (row_index (se_student e)) assignedStudents,
                   nrtCounts)))"

definition studentOrder :: "student list \<Rightarrow> (int \<rightharpoonup> nat)" where
  \<comment> \<open>\<^verbatim>\<open>new Map(students.map((s, idx) => [s.row_index, idx]))\<close>: a later entry wins\<close>
  "studentOrder students = map_of (rev (zip (map row_index students) [0..<length students]))"

definition by_student_order :: "(int \<rightharpoonup> nat) \<Rightarrow> assignment \<Rightarrow> assignment \<Rightarrow> int" where
  "by_student_order ord a b =
     (case (ord (row_index (a_student a)), ord (row_index (a_student b))) of
        (Some aIdx, Some bIdx) \<Rightarrow> int aIdx - int bIdx
      | _ \<Rightarrow> 0)"

definition generateOptimalAssignments ::
  "student list \<Rightarrow> nrt list \<Rightarrow> buckets \<Rightarrow> assignment list" where
  "generateOptimalAssignments students nrts currentAssignments =
     (let availableNrts = filter (is_available currentAssignments) nrts
      in if availableNrts = [] \<or> students = [] then []
         else
           (let scores = js_sort by_score_desc (all_scores currentAssignments students availableNrts);
                nrtCounts = init_counts currentAssignments availableNrts;
                assignments = fst (fold greedy_step scores ([], {}, nrtCounts))
            in js_sort (by_student_order (studentOrder students)) assignments))"

section \<open>Example profiles\<close>

text \<open>The end-to-end scenario of the specification: one student, one active tutor.\<close>

definition scenario_student :: student where
  "scenario_student =
     \<lparr> row_index = 1, status = [], class_year = [],
       medical_interests = ''global health policy'',
       research_activities = [], extracurricular_activities = [] \<rparr>"

definition scenario_tutor :: nrt where
  "scenario_tutor =
     \<lparr> email = ''a@x.com'', name = ''Dr. A'', nrt_row_index = 1, nrt_status = ''active'',
       nrt_medical_interests = ''global health and policy work'',
       interested_in_research = [], interests_outside_medicine = [] \<rparr>"

text \<open>A student who repeats each term, and a tutor who names each term once.\<close>

definition repeating_student :: student where
  "repeating_student =
     \<lparr> row_index = 2, status = [], class_year = [],
       medical_interests = ''cardiology cardiology'',
       research_activities = ''genetics genetics'',
       extracurricular_activities = ''chess chess'' \<rparr>"

definition plain_tutor :: nrt where
  "plain_tutor =
     \<lparr> email = ''b@x.com'', name = ''Dr. B'', nrt_row_index = 2, nrt_status = ''active'',
       nrt_medical_interests = ''cardiology'',
       interested_in_research = ''genetics'',
       interests_outside_medicine = ''chess'' \<rparr>"

text \<open>
  Exchanging the two texts of every paired field: the student takes the tutor's three
  texts and the tutor the student's.
\<close>

definition swap_student :: "student \<Rightarrow> nrt \<Rightarrow> student" where
  "swap_student st n =
     st \<lparr> medical_interests := nrt_medical_interests n,
          research_activities := interested_in_research n,
          extracurricular_activities := interests_outside_medicine n \<rparr>"

definition swap_tutor :: "student \<Rightarrow> nrt \<Rightarrow> nrt" where
  "swap_tutor st n =
     n \<lparr> nrt_medical_interests := medical_interests st,
         interested_in_research := research_activities st,
         interests_outside_medicine := extracurricular_activities st \<rparr>"

section \<open>Assignment board\<close>

text \<open>
  The state of the assignment step: the unassigned pool \<open>students\<close>, the tutors shown as
  drop zones \<open>nrts\<close>, all tutors \<open>allNrts\<close>, the new-assignment buckets \<open>assignments\<close>
  and the current-assignment buckets \<open>currentAssignments\<close> (both keyed by tutor e-mail),
  the suggestion list with its panel flag, and what the drop handler reads of the pointer:
  the vertical drop position over the unassigned zone and whether the zone is mounted.
\<close>

record board =
  students :: "student list"
  nrts :: "nrt list"
  allNrts :: "nrt list"
  assignments :: buckets
  currentAssignments :: buckets
  tentativeAssignments :: "assignment list"
  tentativePanelOpen :: bool
  dropPosition :: "rat option"
  zoneMounted :: bool

text \<open>
  A drop target is identified by a string (\<open>unassigned\<close> or a tutor's e-mail address) or
  by a number (the row index of a student card).  The dragged card is always a student
  card, identified by its row index.
\<close>

datatype drop_id = Zone string | Card int

record drag_event =
  active_id :: int
  over :: "drop_id option"

datatype outcome = Moved | NoChange | Alert string | Threw

subsection \<open>Ordering of the unassigned pool\<close>

definition digit_val :: "char \<Rightarrow> nat" where
  \<comment> \<open>the value of a digit in a radix up to 36; 36 for every other character\<close>
  "digit_val c =
     (let n = (of_char c :: nat) in
        if 48 \<le> n \<and> n \<le> 57 then n - 48
        else if 97 \<le> n \<and> n \<le> 122 then n - 87
        else if 65 \<le> n \<and> n \<le> 90 then n - 55
        else 36)"

definition parseInt :: "string \<Rightarrow> int option" where
  \<comment> \<open>\<^verbatim>\<open>parseInt(s)\<close> without a radix; \<open>None\<close> is \<^verbatim>\<open>NaN\<close>\<close>
  "parseInt s =
     (let s1 = dropWhile is_space_char s;
          (sign, s2) = (case s1 of
                          c # r \<Rightarrow> if c = CHR ''-'' then (- 1 :: int, r)
                                   else if c = CHR ''+'' then (1, r) else (1, s1)
                        | [] \<Rightarrow> (1, s1));
          (radix, s3) = (case s2 of
                           c # d # r \<Rightarrow> if c = CHR ''0'' \<and> (d = CHR ''x'' \<or> d = CHR ''X'')
                                        then (16 :: nat, r) else (10, s2)
                         | _ \<Rightarrow> (10, s2));
          ds = takeWhile (\<lambda>c. digit_val c < radix) s3
      in if ds = [] then None
         else Some (sign * int (foldl (\<lambda>acc c. acc * radix + digit_val c) 0 ds)))"

definition statusPriority :: "string \<Rightarrow> int" where
  \<comment> \<open>\<^verbatim>\<open>statusPriority[status] || 2\<close>\<close>
  "statusPriority st =
     (if st = ''Applying Next Cycle'' then 1
      else if st = ''Not Applying'' then 2
      else if st = ''Currently Applying'' then 3
      else 2)"

definition by_status_and_class_year :: "student \<Rightarrow> student \<Rightarrow> int" where
  "by_status_and_class_year a b =
     (let aStatus = (if status a = [] then ''Not Applying'' else status a);
          bStatus = (if status b = [] then ''Not Applying'' else status b);
          aPriority = statusPriority aStatus;
          bPriority = statusPriority bStatus
      in if aPriority \<noteq> bPriority then aPriority - bPriority
         else if aStatus = ''Not Applying'' \<and> bStatus = ''Not Applying''
         then (let aYear = (if class_year a \<noteq> [] then parseInt (class_year a) else Some 9999);
                   bYear = (if class_year b \<noteq> [] then parseInt (class_year b) else Some 9999)
               in case (aYear, bYear) of (Some x, Some y) \<Rightarrow> x - y | _ \<Rightarrow> 0)
         else 0)"

definition sortStudentsByStatusAndClassYear :: "student list \<Rightarrow> student list" where
  "sortStudentsByStatusAndClassYear sts = js_sort by_status_and_class_year sts"

subsection \<open>Looking a student up\<close>

definition with_row_index :: "int \<Rightarrow> student \<Rightarrow> bool" where
  "with_row_index a s = (row_index s = a)"

definition without_row_index :: "int \<Rightarrow> student list \<Rightarrow> student list" where
  \<comment> \<open>\<^verbatim>\<open>list.filter((s) => s.row_index !== id)\<close>\<close>
  "without_row_index a l = filter (\<lambda>s. row_index s \<noteq> a) l"

text \<open>
  The loop \<^verbatim>\<open>for (const [email, list] of Object.entries(buckets))\<close> that stops at the
  first bucket holding a student with the given row index.
\<close>

fun find_in_buckets :: "int \<Rightarrow> buckets \<Rightarrow> (string \<times> student list \<times> student) option" where
  "find_in_buckets a [] = None"
| "find_in_buckets a ((e, l) # rest) =
     (case find (with_row_index a) l of
        Some s \<Rightarrow> Some (e, l, s)
      | None \<Rightarrow> find_in_buckets a rest)"

definition locate :: "board \<Rightarrow> int \<Rightarrow> (student \<times> string) option" where
  \<comment> \<open>the dragged student and the \<^verbatim>\<open>sourceType\<close> string of the drop handler\<close>
  "locate b a =
     (case find (with_row_index a) (students b) of
        Some s \<Rightarrow> Some (s, ''unassigned'')
      | None \<Rightarrow>
          (case find_in_buckets a (assignments b) of
             Some (e, l, s) \<Rightarrow> Some (s, e)
           | None \<Rightarrow>
               (case find_in_buckets a (currentAssignments b) of
                  Some (e, l, s) \<Rightarrow> Some (s, ''current_'' @ e)
                | None \<Rightarrow> None)))"

subsection \<open>Dropping on the unassigned zone\<close>

fun indexOf :: "'a list \<Rightarrow> 'a \<Rightarrow> nat" where
  "indexOf [] x = 0"
| "indexOf (y # ys) x = (if y = x then 0 else Suc (indexOf ys x))"

definition insertIndex :: "drop_id \<Rightarrow> rat option \<Rightarrow> bool \<Rightarrow> student list \<Rightarrow> nat" where
  "insertIndex ov dropPos mounted sortedCurrent =
     (let sortedIds = map row_index sortedCurrent
      in case ov of
           Card i \<Rightarrow> if i \<in> set sortedIds then indexOf sortedIds i else length sortedCurrent
         | Zone z \<Rightarrow>
             (case dropPos of
                Some y \<Rightarrow>
                  if z = ''unassigned'' \<and> mounted
                  then (let adjustedY = y - 60 - 16
                        in if adjustedY > 0
                           then min (nat \<lfloor>adjustedY / 80\<rfloor>) (length sortedCurrent)
                           else 0)
                  else length sortedCurrent
              | None \<Rightarrow> length sortedCurrent))"

definition splice_in :: "nat \<Rightarrow> 'a \<Rightarrow> 'a list \<Rightarrow> 'a list" where
  \<comment> \<open>\<^verbatim>\<open>list.splice(i, 0, x)\<close>\<close>
  "splice_in i x xs = take i xs @ [x] @ drop i xs"

definition put_back :: "board \<Rightarrow> drop_id \<Rightarrow> student \<Rightarrow> student list" where
  "put_back b ov foundStudent =
     (let sortedCurrent = sortStudentsByStatusAndClassYear (students b)
      in splice_in (insertIndex ov (dropPosition b) (zoneMounted b) sortedCurrent)
           foundStudent sortedCurrent)"

definition drop_on_unassigned :: "int \<Rightarrow> drop_id \<Rightarrow> board \<Rightarrow> outcome \<times> board" where
  "drop_on_unassigned a ov b =
     (case find_in_buckets a (assignments b) of
        Some (e, assignedStudents, foundStudent) \<Rightarrow>
          (Moved, b \<lparr> assignments := AList.update e (without_row_index a assignedStudents) (assignments b),
                      students := put_back b ov foundStudent,
                      dropPosition := None \<rparr>)
      | None \<Rightarrow>
          (case find_in_buckets a (currentAssignments b) of
             Some (e, currentStudents, foundStudent) \<Rightarrow>
               (Moved, b \<lparr> currentAssignments :=
                             AList.update e (without_row_index a currentStudents) (currentAssignments b),
                           students := put_back b ov foundStudent,
                           dropPosition := None \<rparr>)
           | None \<Rightarrow> (NoChange, b \<lparr> dropPosition := None \<rparr>)))"

subsection \<open>Dropping on a tutor\<close>

definition starts_with :: "string \<Rightarrow> string \<Rightarrow> bool" where
  "starts_with p s = (take (length p) s = p)"

text \<open>
  The loops \<^verbatim>\<open>Object.keys(buckets).forEach(email => { if (email !== nrtEmail)
  buckets[email] = buckets[email].filter(...) })\<close>: every bucket but the target's is
  replaced by its filtered copy, in place.
\<close>

definition strip_others :: "int \<Rightarrow> string \<Rightarrow> buckets \<Rightarrow> buckets" where
  "strip_others a nrtEmail d =
     map (\<lambda>(e, l). if e \<noteq> nrtEmail then (e, without_row_index a l) else (e, l)) d"

definition add_to_tutor :: "student \<Rightarrow> string \<Rightarrow> buckets \<Rightarrow> buckets" where
  "add_to_tutor s nrtEmail d =
     (let d1 = (if map_of d nrtEmail = None then AList.update nrtEmail [] d else d)
      in case map_of d1 nrtEmail of
           Some l \<Rightarrow> if find (with_row_index (row_index s)) l = None
                     then AList.update nrtEmail (l @ [s]) d1 else d1
         | None \<Rightarrow> d1)"

definition not_accepting_msg :: string where
  "not_accepting_msg = ''This NRT is not accepting new students''"

definition capacity_msg :: string where
  "capacity_msg = ''This NRT already has 3 students (maximum capacity)''"

definition totalAfter :: "board \<Rightarrow> int \<Rightarrow> string \<Rightarrow> string \<Rightarrow> nat" where
  "totalAfter b a sourceType nrtEmail =
     (let totalCurrent = currentCount (currentAssignments b) nrtEmail;
          totalNew = currentCount (assignments b) nrtEmail;
          already = (case map_of (assignments b) nrtEmail of
                       Some l \<Rightarrow> find (with_row_index a) l \<noteq> None
                     | None \<Rightarrow> False)
      in totalCurrent + totalNew + (if sourceType = ''unassigned'' \<or> \<not> already then 1 else 0))"

text \<open>
  Removing the student from the source.  A source string that starts with \<open>current_\<close>
  is read as a current-assignment bucket; reading a bucket that does not exist throws.
\<close>

definition remove_from_source :: "int \<Rightarrow> string \<Rightarrow> board \<Rightarrow> board option" where
  "remove_from_source a sourceType b =
     (if sourceType = ''unassigned''
      then Some (b \<lparr> students := without_row_index a (students b) \<rparr>)
      else if starts_with ''current_'' sourceType
      then (let sourceEmail = drop (length ''current_'') sourceType
            in case map_of (currentAssignments b) sourceEmail of
                 Some l \<Rightarrow> Some (b \<lparr> currentAssignments :=
                                       AList.update sourceEmail (without_row_index a l)
                                         (currentAssignments b) \<rparr>)
               | None \<Rightarrow> None)
      else (case map_of (assignments b) sourceType of
              Some l \<Rightarrow> Some (b \<lparr> assignments :=
                                    AList.update sourceType (without_row_index a l) (assignments b) \<rparr>)
            | None \<Rightarrow> None))"

definition drop_on_tutor :: "int \<Rightarrow> drop_id \<Rightarrow> board \<Rightarrow> outcome \<times> board" where
  "drop_on_tutor a ov b =
     (case locate b a of
        None \<Rightarrow> (NoChange, b \<lparr> dropPosition := None \<rparr>)
      | Some (student, sourceType) \<Rightarrow>
          (case ov of
             Card i \<Rightarrow> (NoChange, b \<lparr> dropPosition := None \<rparr>)
           | Zone nrtEmail \<Rightarrow>
               (case find (\<lambda>n. email n = nrtEmail) (nrts b) of
                  None \<Rightarrow> (NoChange, b \<lparr> dropPosition := None \<rparr>)
                | Some n \<Rightarrow>
                    if nrt_status n \<noteq> ''active'' \<or>
                       nrt_status n = ''leaving, but keeping students'' \<or>
                       nrt_status n = ''active, but does not want additional students'' \<or>
                       nrt_status n = ''pending approval''
                    then (Alert not_accepting_msg, b \<lparr> dropPosition := None \<rparr>)
                    else if totalAfter b a sourceType nrtEmail > 3
                    then (Alert capacity_msg, b \<lparr> dropPosition := None \<rparr>)
                    else (case remove_from_source a sourceType b of
                            None \<Rightarrow> (Threw, b \<lparr> dropPosition := None \<rparr>)
                          | Some b1 \<Rightarrow>
                              (Moved,
                               b1 \<lparr> assignments :=
                                      add_to_tutor student nrtEmail
                                        (strip_others a nrtEmail (assignments b1)),
                                    currentAssignments :=
                                      strip_others a nrtEmail (currentAssignments b1),
                                    dropPosition := None \<rparr>)))))"

definition handleDragEnd :: "drag_event \<Rightarrow> board \<Rightarrow> outcome \<times> board" where
  "handleDragEnd ev b =
     (case over ev of
        None \<Rightarrow> (NoChange, b \<lparr> dropPosition := None \<rparr>)
      | Some ov \<Rightarrow>
          if ov = Zone ''unassigned'' \<or>
             (case ov of Card i \<Rightarrow> find (with_row_index i) (students b) \<noteq> None | Zone z \<Rightarrow> False)
          then drop_on_unassigned (active_id ev) ov b
          else drop_on_tutor (active_id ev) ov b)"

subsection \<open>Suggestions\<close>

definition handleSuggestAssignments :: "board \<Rightarrow> board" where
  "handleSuggestAssignments b =
     b \<lparr> tentativeAssignments :=
           generateOptimalAssignments (students b) (allNrts b) (currentAssignments b),
         tentativePanelOpen := True \<rparr>"

definition other_pair :: "assignment \<Rightarrow> assignment \<Rightarrow> bool" where
  "other_pair x a =
     (row_index (a_student a) \<noteq> row_index (a_student x) \<or> email (a_nrt a) \<noteq> email (a_nrt x))"

definition handleAcceptAssignment :: "assignment \<Rightarrow> board \<Rightarrow> board" where
  "handleAcceptAssignment x b =
     (let e = email (a_nrt x);
          updated = (if map_of (assignments b) e = None
                     then AList.update e [] (assignments b) else assignments b);
          updated' = AList.update e
                       ((case map_of updated e of Some l \<Rightarrow> l | None \<Rightarrow> []) @ [a_student x])
                       updated
      in b \<lparr> assignments := updated',
             students := without_row_index (row_index (a_student x)) (students b),
             tentativeAssignments := filter (other_pair x) (tentativeAssignments b) \<rparr>)"

definition handleRejectAssignment :: "assignment \<Rightarrow> board \<Rightarrow> board" where
  "handleRejectAssignment x b =
     b \<lparr> tentativeAssignments := filter (other_pair x) (tentativeAssignments b) \<rparr>"

subsection \<open>Where the students are\<close>

definition bucket_ids :: "buckets \<Rightarrow> int list" where
  "bucket_ids d = concat (map (\<lambda>p. map row_index (snd p)) d)"

definition all_ids :: "board \<Rightarrow> int list" where
  \<comment> \<open>the row index of every card on the board, pool first, then the two kinds of bucket\<close>
  "all_ids b =
     map row_index (students b) @ bucket_ids (assignments b) @ bucket_ids (currentAssignments b)"

definition keys_ok :: "board \<Rightarrow> bool" where
  \<comment> \<open>an object has every key once\<close>
  "keys_ok b = (distinct (map fst (assignments b)) \<and> distinct (map fst (currentAssignments b)))"

definition one_place :: "board \<Rightarrow> bool" where
  \<comment> \<open>no row index occurs twice over the pool and all buckets\<close>
  "one_place b = (keys_ok b \<and> distinct (all_ids b))"

definition bucket_of :: "buckets \<Rightarrow> string \<Rightarrow> student list" where
  \<comment> \<open>\<^verbatim>\<open>buckets[email] || []\<close>\<close>
  "bucket_of d e = (case map_of d e of Some l \<Rightarrow> l | None \<Rightarrow> [])"

definition same_buckets :: "board \<Rightarrow> board \<Rightarrow> bool" where
  "same_buckets b b' =
     (students b' = students b \<and> assignments b' = assignments b \<and>
      currentAssignments b' = currentAssignments b)"

section \<open>Commit of a workflow batch\<close>

text \<open>
  The staged changes of a guided session.  The two assignment objects are keyed by the
  student's row index, so \<^verbatim>\<open>Object.entries\<close> yields the keys as strings.
\<close>

record status_update =
  su_row_index :: int
  su_status :: string

record workflowData =
  deletedStudents :: "student list"
  newStudents :: "student list"
  deletedNRTs :: "nrt list"
  updatedNRTs :: "status_update list"
  newNRTs :: "nrt list"
  rtAssignments :: "(string \<times> string) list"
  nrtAssignments :: "(string \<times> string) list"

text \<open>
  The persistence collaborator is a server with a state of its own: it answers one call
  at a time.  A run is the server's state and the list of calls issued so far with their
  answers.  A rejected promise is an answer \<open>Failed\<close> carrying what the handler reads of
  the error: the HTTP status and the error text of the response.
\<close>

datatype api_call =
    StudentsDelete int
  | StudentsBulkAdd "student list"
  | NrtsDelete int
  | NrtsGetAll
  | NrtsUpdate int nrt
  | NrtsBulkAdd "nrt list"
  | AssignRT "int option" string
  | AssignNRT "int option" string
  | SyncToSheets bool

record api_error =
  http_status :: "nat option"
  error_text :: "string option"

datatype api_response = Ok | OkNrts "nrt list" | Failed api_error

datatype thrown = ApiError api_error | TypeError

datatype commit_outcome = Finished | Proceeded | ShowError string

type_synonym 'e server = "'e \<Rightarrow> api_call \<Rightarrow> api_response \<times> 'e"

type_synonym 'e run = "'e \<times> (api_call \<times> api_response) list"

type_synonym 'e step = "'e run \<Rightarrow> thrown option \<times> 'e run"

definition request :: "'e server \<Rightarrow> api_call \<Rightarrow> 'e run \<Rightarrow> api_response \<times> 'e run" where
  "request srv c r = (case srv (fst r) c of (resp, e') \<Rightarrow> (resp, (e', snd r @ [(c, resp)])))"

definition call_or_throw :: "'e server \<Rightarrow> api_call \<Rightarrow> 'e step" where
  \<comment> \<open>\<^verbatim>\<open>await api(...)\<close> outside any inner \<^verbatim>\<open>try\<close>\<close>
  "call_or_throw srv c r =
     (case request srv c r of
        (Failed err, r') \<Rightarrow> (Some (ApiError err), r')
      | (_, r') \<Rightarrow> (None, r'))"

text \<open>A \<^verbatim>\<open>for ... of\<close> loop whose body may throw: the first throw ends the loop.\<close>

fun for_each :: "('a \<Rightarrow> 'e step) \<Rightarrow> 'a list \<Rightarrow> 'e step" where
  "for_each body [] r = (None, r)"
| "for_each body (x # xs) r =
     (case body x r of
        (Some t, r') \<Rightarrow> (Some t, r')
      | (None, r') \<Rightarrow> for_each body xs r')"

definition delete_students_step :: "'e server \<Rightarrow> workflowData \<Rightarrow> 'e step" where
  "delete_students_step srv wd =
     for_each (\<lambda>s. call_or_throw srv (StudentsDelete (row_index s))) (deletedStudents wd)"

definition add_students_step :: "'e server \<Rightarrow> workflowData \<Rightarrow> 'e step" where
  "add_students_step srv wd r =
     (if length (newStudents wd) > 0 then call_or_throw srv (StudentsBulkAdd (newStudents wd)) r
      else (None, r))"

definition delete_nrts_step :: "'e server \<Rightarrow> workflowData \<Rightarrow> 'e step" where
  "delete_nrts_step srv wd =
     for_each (\<lambda>n. call_or_throw srv (NrtsDelete (nrt_row_index n))) (deletedNRTs wd)"

definition update_one_nrt :: "'e server \<Rightarrow> status_update \<Rightarrow> 'e step" where
  "update_one_nrt srv u r =
     (case request srv NrtsGetAll r of
        (Failed err, r') \<Rightarrow> (Some (ApiError err), r')
      | (Ok, r') \<Rightarrow> (Some TypeError, r')
      | (OkNrts rows, r') \<Rightarrow>
          (case find (\<lambda>n. nrt_row_index n = su_row_index u) rows of
             Some n \<Rightarrow>
               if su_status u = ''DELETE''
               then call_or_throw srv (NrtsDelete (su_row_index u)) r'
               else call_or_throw srv
                      (NrtsUpdate (su_row_index u) (n \<lparr> nrt_status := su_status u \<rparr>)) r'
           | None \<Rightarrow> (None, r')))"

definition update_nrts_step :: "'e server \<Rightarrow> workflowData \<Rightarrow> 'e step" where
  "update_nrts_step srv wd = for_each (update_one_nrt srv) (updatedNRTs wd)"

definition add_nrts_step :: "'e server \<Rightarrow> workflowData \<Rightarrow> 'e step" where
  "add_nrts_step srv wd r =
     (if length (newNRTs wd) > 0 then call_or_throw srv (NrtsBulkAdd (newNRTs wd)) r
      else (None, r))"

fun contains_text :: "string \<Rightarrow> string \<Rightarrow> bool" where
  \<comment> \<open>\<^verbatim>\<open>text.includes(part)\<close>\<close>
  "contains_text part [] = (part = [])"
| "contains_text part (c # cs) = (take (length part) (c # cs) = part \<or> contains_text part cs)"

definition is_not_found :: "api_error \<Rightarrow> bool" where
  "is_not_found err =
     (http_status err = Some 404 \<and>
      (case error_text err of Some m \<Rightarrow> contains_text ''not found'' m | None \<Rightarrow> False))"

definition assign_one ::
  "'e server \<Rightarrow> (int option \<Rightarrow> string \<Rightarrow> api_call) \<Rightarrow> int set \<Rightarrow> string \<times> string \<Rightarrow> 'e step" where
  "assign_one srv assign deletedStudentRowIndices entry r =
     (case entry of (studentRowIndex, tutorEmail) \<Rightarrow>
        (let rowIndex = parseInt studentRowIndex
         in if (case rowIndex of Some i \<Rightarrow> i \<in> deletedStudentRowIndices | None \<Rightarrow> False)
            then (None, r)
            else (case request srv (assign rowIndex tutorEmail) r of
                    (Failed err, r') \<Rightarrow>
                      if is_not_found err then (None, r') else (Some (ApiError err), r')
                  | (_, r') \<Rightarrow> (None, r'))))"

definition assign_rts_step :: "'e server \<Rightarrow> workflowData \<Rightarrow> 'e step" where
  "assign_rts_step srv wd =
     for_each (assign_one srv AssignRT (set (map row_index (deletedStudents wd))))
       (rtAssignments wd)"

definition assign_nrts_step :: "'e server \<Rightarrow> workflowData \<Rightarrow> 'e step" where
  "assign_nrts_step srv wd =
     for_each (assign_one srv AssignNRT (set (map row_index (deletedStudents wd))))
       (nrtAssignments wd)"

definition sync_step :: "'e server \<Rightarrow> 'e step" where
  \<comment> \<open>the export has a \<^verbatim>\<open>try\<close> of its own: a failure is logged and nothing is thrown\<close>
  "sync_step srv r = (None, snd (request srv (SyncToSheets False) r))"

definition error_message :: "string \<Rightarrow> thrown \<Rightarrow> string" where
  \<comment> \<open>\<^verbatim>\<open>err.response?.data?.error || fallback\<close>\<close>
  "error_message fallback t =
     (case t of
        ApiError err \<Rightarrow> (case error_text err of
                          Some m \<Rightarrow> if m = [] then fallback else m
                        | None \<Rightarrow> fallback)
      | TypeError \<Rightarrow> fallback)"

definition hasChanges_all :: "workflowData \<Rightarrow> bool" where
  "hasChanges_all wd =
     (length (deletedStudents wd) > 0 \<or> length (newStudents wd) > 0 \<or>
      length (deletedNRTs wd) > 0 \<or> length (updatedNRTs wd) > 0 \<or>
      length (newNRTs wd) > 0 \<or> length (rtAssignments wd) > 0 \<or>
      length (nrtAssignments wd) > 0)"

definition processWorkflow ::
  "'e server \<Rightarrow> workflowData \<Rightarrow> 'e \<Rightarrow> commit_outcome \<times> 'e run" where
  "processWorkflow srv wd e0 =
     (case for_each (\<lambda>step. step)
             [delete_students_step srv wd, add_students_step srv wd, delete_nrts_step srv wd,
              update_nrts_step srv wd, add_nrts_step srv wd, assign_rts_step srv wd,
              assign_nrts_step srv wd,
              (\<lambda>r. if hasChanges_all wd then sync_step srv r else (None, r))]
             (e0, []) of
        (Some t, r) \<Rightarrow> (ShowError (error_message ''Error processing workflow'' t), r)
      | (None, r) \<Rightarrow> (Finished, r))"

definition hasChanges_review :: "workflowData \<Rightarrow> bool" where
  "hasChanges_review wd =
     (length (deletedStudents wd) > 0 \<or> length (newStudents wd) > 0 \<or>
      length (deletedNRTs wd) > 0 \<or> length (updatedNRTs wd) > 0 \<or>
      length (newNRTs wd) > 0)"

definition handleApplyChanges ::
  "'e server \<Rightarrow> bool \<Rightarrow> workflowData \<Rightarrow> 'e \<Rightarrow> commit_outcome \<times> 'e run" where
  \<comment> \<open>the review step; the flag says whether \<^verbatim>\<open>onFinish\<close> was provided\<close>
  "handleApplyChanges srv onFinish wd e0 =
     (if \<not> hasChanges_review wd then (Proceeded, (e0, []))
      else
        (case for_each (\<lambda>step. step)
                [delete_students_step srv wd, add_students_step srv wd, delete_nrts_step srv wd,
                 update_nrts_step srv wd, add_nrts_step srv wd,
                 (\<lambda>r. if onFinish then sync_step srv r else (None, r))]
                (e0, []) of
           (Some t, r) \<Rightarrow> (ShowError (error_message ''Error applying changes'' t), r)
         | (None, r) \<Rightarrow> (if onFinish then Finished else Proceeded, r)))"

definition trace_of :: "commit_outcome \<times> 'e run \<Rightarrow> (api_call \<times> api_response) list" where
  "trace_of res = snd (snd res)"

definition assign_target :: "api_call \<Rightarrow> int option" where
  \<comment> \<open>the student row index an assignment call is issued for\<close>
  "assign_target c = (case c of AssignRT i e \<Rightarrow> i | AssignNRT i e \<Rightarrow> i | _ \<Rightarrow> None)"

definition assign_calls_for :: "int \<Rightarrow> (api_call \<times> api_response) list \<Rightarrow> api_call list" where
  "assign_calls_for i tr = filter (\<lambda>c. assign_target c = Some i) (map fst tr)"

definition is_students_delete :: "api_call \<Rightarrow> bool" where
  "is_students_delete c = (case c of StudentsDelete i \<Rightarrow> True | _ \<Rightarrow> False)"

definition adds_only :: "(api_call \<Rightarrow> bool) \<Rightarrow> 'e step \<Rightarrow> bool" where
  \<comment> \<open>the step only appends calls, and every call it appends satisfies the predicate\<close>
  "adds_only P step =
     (\<forall>r. \<exists>new. snd (snd (step r)) = snd r @ new \<and> (\<forall>p \<in> set new. P (fst p)))"

section \<open>Example boards and batches\<close>

definition plain_card :: "int \<Rightarrow> student" where
  "plain_card i =
     \<lparr> row_index = i, status = [], class_year = [], medical_interests = [],
       research_activities = [], extracurricular_activities = [] \<rparr>"

definition tutor_with :: "string \<Rightarrow> string \<Rightarrow> nrt" where
  "tutor_with e st =
     \<lparr> email = e, name = ''Dr. '' @ e, nrt_row_index = 1, nrt_status = st,
       nrt_medical_interests = [], interested_in_research = [],
       interests_outside_medicine = [] \<rparr>"

definition board_with :: "student list \<Rightarrow> nrt list \<Rightarrow> buckets \<Rightarrow> buckets \<Rightarrow> board" where
  "board_with pool tutors new cur =
     \<lparr> students = pool, nrts = tutors, allNrts = tutors, assignments = new,
       currentAssignments = cur, tentativeAssignments = [], tentativePanelOpen = False,
       dropPosition = None, zoneMounted = True \<rparr>"

text \<open>An active tutor with three new assignments in this session and one student left.\<close>

definition full_board :: board where
  "full_board =
     board_with [plain_card 4] [tutor_with ''a@x.com'' ''active'']
       [(''a@x.com'', [plain_card 1, plain_card 2, plain_card 3])] [(''a@x.com'', [])]"

definition full_pair :: assignment where
  "full_pair =
     \<lparr> a_student = plain_card 4, a_nrt = tutor_with ''a@x.com'' ''active'',
       a_similarity = calculateSimilarity (plain_card 4) (tutor_with ''a@x.com'' ''active'') \<rparr>"




text \<open>A server that refuses to delete student 1 and accepts every other call.\<close>

definition refusing_server :: "unit server" where
  "refusing_server e c =
     (if c = StudentsDelete 1
      then (Failed \<lparr> http_status = Some 500, error_text = Some ''locked'' \<rparr>, e)
      else if c = NrtsGetAll then (OkNrts [], e) else (Ok, e))"

definition accepting_server :: "unit server" where
  "accepting_server e c = (if c = NrtsGetAll then (OkNrts [], e) else (Ok, e))"

definition two_deletions :: workflowData where
  "two_deletions =
     \<lparr> deletedStudents = [plain_card 1, plain_card 2], newStudents = [], deletedNRTs = [],
       updatedNRTs = [], newNRTs = [],
       rtAssignments = [(''3'', ''rt@x.com'')], nrtAssignments = [] \<rparr>"

definition delete_and_assign :: workflowData where
  "delete_and_assign =
     \<lparr> deletedStudents = [plain_card 5], newStudents = [], deletedNRTs = [],
       updatedNRTs = [], newNRTs = [],
       rtAssignments = [(''5'', ''rt@x.com''), (''6'', ''rt@x.com'')],
       nrtAssignments = [(''5'', ''a@x.com'')] \<rparr>"

section \<open>Auxiliary notions for the commit\<close>

definition spares :: "int set \<Rightarrow> api_call \<Rightarrow> bool" where
  \<comment> \<open>the call is not an assignment call for one of the row indices\<close>
  "spares D c = (case assign_target c of Some i \<Rightarrow> i \<notin> D | None \<Rightarrow> True)"

definition answered :: "(api_call \<times> api_response) list \<Rightarrow> bool" where
  \<comment> \<open>no call of the trace was answered with a failure\<close>
  "answered tr = (\<forall>p \<in> set tr. \<forall>err. snd p \<noteq> Failed err)"

section \<open>Auxiliary notions for the matcher\<close>



section \<open>Verified properties\<close>

subsection \<open>Sorting keeps the elements\<close>





subsection \<open>The matcher\<close>












subsection \<open>The scorer on concrete profiles\<close>

text \<open>
  Claim C3.  The scorer counts a matching word once for every time the student's text
  repeats it, while the union is a set: on \<open>repeating_student\<close> and \<open>plain_tutor\<close>
  every category has two matches over a union of one word, so all four scores are 200.
\<close>

theorem similarity_repeated_terms:
  "calculateSimilarity repeating_student plain_tutor =
     \<lparr> score = 200, medicalScore = 200, researchScore = 200, hobbyScore = 200,
       matching_medical = [''cardiology'', ''cardiology''],
       matching_research = [''genetics'', ''genetics''],
       matching_hobbies = [''chess'', ''chess''] \<rparr>"
  unfolding repeating_student_def plain_tutor_def by code_simp

text \<open>
  Claim C9.  With the texts of \<open>repeating_student\<close> and \<open>plain_tutor\<close> exchanged in
  every category the scores are 100, not 200: the repeated words are now on the tutor's
  side, where they are not counted twice.
\<close>

theorem similarity_swap_differs:
  "score (calculateSimilarity repeating_student plain_tutor) = 200 \<and>
   medicalScore (calculateSimilarity repeating_student plain_tutor) = 200 \<and>
   score (calculateSimilarity (swap_student repeating_student plain_tutor)
                              (swap_tutor repeating_student plain_tutor)) = 100 \<and>
   medicalScore (calculateSimilarity (swap_student repeating_student plain_tutor)
                                     (swap_tutor repeating_student plain_tutor)) = 100"
  unfolding repeating_student_def plain_tutor_def swap_student_def swap_tutor_def by code_simp

text \<open>
  Claim C8, as stated: the matcher returns one pair whose medical and overall scores are
  both 100.  It does not: the tutor's word \<open>work\<close> is not a stop word.
\<close>

theorem scenario_scores_counterexample:
  "\<not> (map (medicalScore \<circ> a_similarity)
         (generateOptimalAssignments [scenario_student] [scenario_tutor] []) = [100] \<and>
       map (score \<circ> a_similarity)
         (generateOptimalAssignments [scenario_student] [scenario_tutor] []) = [100])"
  unfolding scenario_student_def scenario_tutor_def by code_simp

text \<open>
  Claim C8, amended.  On the scenario the matcher returns exactly one pair, the student
  with the tutor \<open>a@x.com\<close>; three of the four significant words of the two medical
  texts overlap, so the medical score is 75 and the overall score, 0.4 times 75, is 30.
\<close>

theorem scenario_scores:
  "generateOptimalAssignments [scenario_student] [scenario_tutor] [] =
     [\<lparr> a_student = scenario_student, a_nrt = scenario_tutor,
         a_similarity =
           \<lparr> score = 30, medicalScore = 75, researchScore = 0, hobbyScore = 0,
             matching_medical = [''global'', ''health'', ''policy''],
             matching_research = [], matching_hobbies = [] \<rparr> \<rparr>] \<and>
   email scenario_tutor = ''a@x.com''"
  unfolding scenario_student_def scenario_tutor_def by code_simp

subsection \<open>The assignment board: counting row indices\<close>






lemma bucket_ids_Nil [simp]: "bucket_ids [] = []"
  by (simp add: bucket_ids_def)

lemma bucket_ids_Cons [simp]: "bucket_ids ((k, l) # d) = map row_index l @ bucket_ids d"
  by (simp add: bucket_ids_def)

lemma bucket_of_Nil [simp]: "bucket_of [] k = []"
  by (simp add: bucket_of_def)

lemma bucket_of_Cons [simp]: "bucket_of ((k', l) # d) k = (if k' = k then l else bucket_of d k)"
  by (simp add: bucket_of_def)






lemma bucket_of_update: "bucket_of (AList.update k v d) k' = (if k' = k then v else bucket_of d k')"
  by (simp add: bucket_of_def update_conv')


lemma keys_strip [simp]: "map fst (strip_others a T d) = map fst d"
  by (induction d) (auto simp: strip_others_def)

lemma bucket_of_strip_target [simp]: "bucket_of (strip_others a T d) T = bucket_of d T"
  by (induction d) (auto simp: strip_others_def)

lemma map_of_strip_target [simp]: "map_of (strip_others a T d) T = map_of d T"
  by (induction d) (auto simp: strip_others_def)




subsection \<open>Finding a student\<close>






subsection \<open>Moving a card\<close>







lemma starts_with_current: "starts_with ''current_'' (''current_'' @ e)"
  by (simp add: starts_with_def)

lemma current_not_unassigned: "''current_'' @ e \<noteq> ''unassigned''"
  by simp


lemma all_ids_dropPosition [simp]: "all_ids (b \<lparr> dropPosition := p \<rparr>) = all_ids b"
  by (simp add: all_ids_def)

lemma keys_ok_dropPosition [simp]: "keys_ok (b \<lparr> dropPosition := p \<rparr>) = keys_ok b"
  by (simp add: keys_ok_def)

lemma one_place_dropPosition [simp]: "one_place (b \<lparr> dropPosition := p \<rparr>) = one_place b"
  by (simp add: one_place_def)







lemma handleRejectAssignment_buckets: "same_buckets b (handleRejectAssignment x b)"
  by (simp add: handleRejectAssignment_def same_buckets_def)




subsection \<open>The assignment board: claims\<close>














text \<open>
  Claim C7.  On \<open>full_board\<close> the tutor has three new assignments and no current one.  The
  matcher, which counts current assignments only, suggests the fourth student for this
  tutor; accepting the suggestion puts a fourth student in the bucket, while dragging the
  same student onto the tutor is refused with the capacity alert.
\<close>

theorem accept_exceeds_capacity:
  "tentativeAssignments (handleSuggestAssignments full_board) = [full_pair] \<and>
   length (bucket_of (assignments (handleAcceptAssignment full_pair full_board)) ''a@x.com'') = 4 \<and>
   fst (handleDragEnd \<lparr> active_id = 4, over = Some (Zone ''a@x.com'') \<rparr> full_board) =
     Alert capacity_msg"
  by code_simp




subsection \<open>The commit: which calls are issued\<close>

lemma request_trace: "snd (snd (request srv c r)) = snd r @ [(c, fst (request srv c r))]"
  by (simp add: request_def split: prod.splits)

lemma adds_onlyI:
  assumes "\<And>r. \<exists>new. snd (snd (step r)) = snd r @ new \<and> (\<forall>p \<in> set new. P (fst p))"
  shows "adds_only P step"
  using assms by (simp add: adds_only_def)

lemma adds_onlyD:
  assumes "adds_only P step"
  obtains new where "snd (snd (step r)) = snd r @ new" and "\<forall>p \<in> set new. P (fst p)"
  using assms unfolding adds_only_def by blast

lemma adds_only_nothing: "adds_only P (\<lambda>r. (None, r))"
  by (rule adds_onlyI) simp

lemma call_or_throw_trace:
  "snd (snd (call_or_throw srv c r)) = snd r @ [(c, fst (request srv c r))]"
  using request_trace[of srv c r]
  by (auto simp: call_or_throw_def split: prod.splits api_response.splits)

lemma adds_only_call: "P c \<Longrightarrow> adds_only P (call_or_throw srv c)"
  by (rule adds_onlyI) (simp add: call_or_throw_trace)

lemma adds_only_for_each:
  assumes "\<forall>x \<in> set xs. adds_only P (body x)"
  shows "adds_only P (for_each body xs)"
proof (rule adds_onlyI)
  fix r :: "'b run"
  show "\<exists>new. snd (snd (for_each body xs r)) = snd r @ new \<and> (\<forall>p \<in> set new. P (fst p))"
    using assms
  proof (induction xs arbitrary: r)
    case Nil
    then show ?case by simp
  next
    case (Cons x xs)
    from Cons.prems have "adds_only P (body x)" by simp
    then obtain n1 where n1: "snd (snd (body x r)) = snd r @ n1" "\<forall>p \<in> set n1. P (fst p)"
      by (rule adds_onlyD)
    obtain t r' where b: "body x r = (t, r')" by (cases "body x r")
    show ?case
    proof (cases t)
      case (Some th)
      then show ?thesis using b n1 by auto
    next
      case None
      from Cons.IH[of r'] Cons.prems obtain n2 where
        n2: "snd (snd (for_each body xs r')) = snd r' @ n2" "\<forall>p \<in> set n2. P (fst p)" by auto
      have "snd (snd (for_each body (x # xs) r)) = snd r @ (n1 @ n2)"
        using b None n1 n2 by simp
      moreover have "\<forall>p \<in> set (n1 @ n2). P (fst p)" using n1 n2 by auto
      ultimately show ?thesis by blast
    qed
  qed
qed

lemma adds_only_if:
  "adds_only P step \<Longrightarrow> adds_only P (\<lambda>r. if c then step r else (None, r))"
  by (cases c) (simp_all add: adds_only_nothing)

lemma adds_only_sync: "P (SyncToSheets False) \<Longrightarrow> adds_only P (sync_step srv)"
  by (rule adds_onlyI) (simp add: sync_step_def request_trace)

lemma adds_only_add_students:
  "P (StudentsBulkAdd (newStudents wd)) \<Longrightarrow> adds_only P (add_students_step srv wd)"
  using adds_only_if[OF adds_only_call, of P "StudentsBulkAdd (newStudents wd)" _ srv]
  by (simp add: add_students_step_def[abs_def])

lemma adds_only_add_nrts:
  "P (NrtsBulkAdd (newNRTs wd)) \<Longrightarrow> adds_only P (add_nrts_step srv wd)"
  using adds_only_if[OF adds_only_call, of P "NrtsBulkAdd (newNRTs wd)" _ srv]
  by (simp add: add_nrts_step_def[abs_def])

lemma adds_only_delete_nrts:
  "(\<And>i. P (NrtsDelete i)) \<Longrightarrow> adds_only P (delete_nrts_step srv wd)"
  unfolding delete_nrts_step_def by (rule adds_only_for_each) (simp add: adds_only_call)

lemma adds_only_update_one:
  assumes "P NrtsGetAll" and "\<And>i. P (NrtsDelete i)" and "\<And>i n. P (NrtsUpdate i n)"
  shows "adds_only P (update_one_nrt srv u)"
proof (rule adds_onlyI)
  fix r :: "'a run"
  obtain resp r' where q: "request srv NrtsGetAll r = (resp, r')" by (cases "request srv NrtsGetAll r")
  have t1: "snd r' = snd r @ [(NrtsGetAll, resp)]" using request_trace[of srv NrtsGetAll r] q by simp
  have "\<exists>n2. snd (snd (update_one_nrt srv u r)) = snd r' @ n2 \<and> (\<forall>p \<in> set n2. P (fst p))"
    using q assms(2,3)
    by (auto simp: update_one_nrt_def call_or_throw_trace split: api_response.splits option.splits)
  then obtain n2 where "snd (snd (update_one_nrt srv u r)) = snd r' @ n2" "\<forall>p \<in> set n2. P (fst p)"
    by blast
  then have "snd (snd (update_one_nrt srv u r)) = snd r @ ((NrtsGetAll, resp) # n2) \<and>
             (\<forall>p \<in> set ((NrtsGetAll, resp) # n2). P (fst p))"
    using t1 assms(1) by simp
  then show "\<exists>new. snd (snd (update_one_nrt srv u r)) = snd r @ new \<and> (\<forall>p \<in> set new. P (fst p))"
    by blast
qed

lemma adds_only_update_nrts:
  assumes "P NrtsGetAll" and "\<And>i. P (NrtsDelete i)" and "\<And>i n. P (NrtsUpdate i n)"
  shows "adds_only P (update_nrts_step srv wd)"
  unfolding update_nrts_step_def
  by (rule adds_only_for_each) (simp add: adds_only_update_one assms)

lemma adds_only_assign_one:
  assumes "\<And>k e. (case k of Some i \<Rightarrow> i \<notin> D | None \<Rightarrow> True) \<Longrightarrow> P (assign k e)"
  shows "adds_only P (assign_one srv assign D entry)"
proof (rule adds_onlyI)
  fix r :: "'a run"
  obtain key e where entry: "entry = (key, e)" by (cases entry)
  show "\<exists>new. snd (snd (assign_one srv assign D entry r)) = snd r @ new \<and>
              (\<forall>p \<in> set new. P (fst p))"
  proof (cases "case parseInt key of Some i \<Rightarrow> i \<in> D | None \<Rightarrow> False")
    case True
    then show ?thesis using entry by (simp add: assign_one_def)
  next
    case False
    then have ok: "P (assign (parseInt key) e)"
      using assms[of "parseInt key" e] by (auto split: option.splits)
    have "snd (snd (assign_one srv assign D entry r)) =
            snd r @ [(assign (parseInt key) e, fst (request srv (assign (parseInt key) e) r))]"
      using False entry request_trace[of srv "assign (parseInt key) e" r]
      by (auto simp: assign_one_def Let_def split: prod.splits api_response.splits)
    then show ?thesis using ok by simp
  qed
qed

lemma adds_only_steps:
  assumes "\<forall>step \<in> set steps. adds_only P step"
  shows "adds_only P (for_each (\<lambda>step. step) steps)"
  using assms by (rule adds_only_for_each)

subsection \<open>No assignment call for a deleted student\<close>

lemma commit_steps_spare_deleted:
  assumes "D = set (map row_index (deletedStudents wd))"
  shows "\<forall>step \<in> set [delete_students_step srv wd, add_students_step srv wd,
            delete_nrts_step srv wd, update_nrts_step srv wd, add_nrts_step srv wd,
            assign_rts_step srv wd, assign_nrts_step srv wd,
            (\<lambda>r. if hasChanges_all wd then sync_step srv r else (None, r))].
          adds_only (spares D) step"
proof -
  have 1: "adds_only (spares D) (delete_students_step srv wd)"
    unfolding delete_students_step_def
    by (rule adds_only_for_each) (simp add: adds_only_call spares_def assign_target_def)
  have 2: "adds_only (spares D) (add_students_step srv wd)"
    by (rule adds_only_add_students) (simp add: spares_def assign_target_def)
  have 3: "adds_only (spares D) (delete_nrts_step srv wd)"
    by (rule adds_only_delete_nrts) (simp add: spares_def assign_target_def)
  have 4: "adds_only (spares D) (update_nrts_step srv wd)"
    by (rule adds_only_update_nrts) (simp_all add: spares_def assign_target_def)
  have 5: "adds_only (spares D) (add_nrts_step srv wd)"
    by (rule adds_only_add_nrts) (simp add: spares_def assign_target_def)
  have 6: "adds_only (spares D) (assign_rts_step srv wd)"
    unfolding assign_rts_step_def assms[symmetric]
    by (rule adds_only_for_each)
       (auto intro!: adds_only_assign_one simp: spares_def assign_target_def split: option.splits)
  have 7: "adds_only (spares D) (assign_nrts_step srv wd)"
    unfolding assign_nrts_step_def assms[symmetric]
    by (rule adds_only_for_each)
       (auto intro!: adds_only_assign_one simp: spares_def assign_target_def split: option.splits)
  have 8: "adds_only (spares D) (\<lambda>r. if hasChanges_all wd then sync_step srv r else (None, r))"
    by (rule adds_only_if, rule adds_only_sync) (simp add: spares_def assign_target_def)
  show ?thesis using 1 2 3 4 5 6 7 8 by simp
qed

lemma processWorkflow_trace:
  "trace_of (processWorkflow srv wd e0) =
     snd (snd (for_each (\<lambda>step. step)
        [delete_students_step srv wd, add_students_step srv wd, delete_nrts_step srv wd,
         update_nrts_step srv wd, add_nrts_step srv wd, assign_rts_step srv wd,
         assign_nrts_step srv wd,
         (\<lambda>r. if hasChanges_all wd then sync_step srv r else (None, r))] (e0, [])))"
  by (simp add: processWorkflow_def trace_of_def split: prod.splits option.splits)

text \<open>
  Claim C6.  Whatever the server answers and whatever the batch holds, a commit issues no
  RT and no NRT assignment call for a row index that is among the staged student
  deletions: the list of assignment calls for such a row index is empty.
\<close>

theorem no_assignment_call_for_deleted_student:
  assumes "i \<in> set (map row_index (deletedStudents wd))"
  shows "assign_calls_for i (trace_of (processWorkflow srv wd e0)) = []"
proof -
  let ?D = "set (map row_index (deletedStudents wd))"
  let ?steps = "[delete_students_step srv wd, add_students_step srv wd, delete_nrts_step srv wd,
         update_nrts_step srv wd, add_nrts_step srv wd, assign_rts_step srv wd,
         assign_nrts_step srv wd,
         (\<lambda>r. if hasChanges_all wd then sync_step srv r else (None, r))]"
  have "adds_only (spares ?D) (for_each (\<lambda>step. step) ?steps)"
    by (rule adds_only_steps) (rule commit_steps_spare_deleted[OF refl])
  then obtain new where new: "snd (snd (for_each (\<lambda>step. step) ?steps (e0, []))) = snd (e0, []) @ new"
    and sp: "\<forall>p \<in> set new. spares ?D (fst p)"
    by (rule adds_onlyD)
  have tr: "trace_of (processWorkflow srv wd e0) = new"
    using new by (simp add: processWorkflow_trace)
  have "\<forall>p \<in> set new. assign_target (fst p) \<noteq> Some i"
    using sp assms by (auto simp: spares_def split: option.splits)
  then show ?thesis unfolding tr assign_calls_for_def by (simp add: filter_empty_conv)
qed

text \<open>
  Witness for C6: student 5 is deleted and has an RT and an NRT assignment staged, student
  6 has an RT assignment staged; only the call for student 6 is issued.
\<close>

theorem no_assignment_call_for_deleted_student_witness:
  "5 \<in> set (map row_index (deletedStudents delete_and_assign)) \<and>
   assign_calls_for 5 (trace_of (processWorkflow accepting_server delete_and_assign ())) = [] \<and>
   assign_calls_for 6 (trace_of (processWorkflow accepting_server delete_and_assign ())) =
     [AssignRT (Some 6) ''rt@x.com'']"
proof -
  have h: "5 \<in> set (map row_index (deletedStudents delete_and_assign))" by code_simp
  have k: "assign_calls_for 6 (trace_of (processWorkflow accepting_server delete_and_assign ())) =
     [AssignRT (Some 6) ''rt@x.com'']" by code_simp
  from no_assignment_call_for_deleted_student[OF h, of accepting_server "()"] h k
  show ?thesis by simp
qed

subsection \<open>A failed deletion ends the commit\<close>

lemma call_or_throw_result:
  "call_or_throw srv c r = (t, r') \<Longrightarrow>
     (t = None \<and> (\<exists>resp. snd r' = snd r @ [(c, resp)] \<and> (\<forall>err. resp \<noteq> Failed err))) \<or>
     (\<exists>err. t = Some (ApiError err) \<and> snd r' = snd r @ [(c, Failed err)])"
  using request_trace[of srv c r]
  by (auto simp: call_or_throw_def split: prod.splits api_response.splits)

lemma delete_loop_result:
  "for_each (\<lambda>s. call_or_throw srv (StudentsDelete (row_index s))) ss r = (t, r') \<Longrightarrow>
     \<exists>new. snd r' = snd r @ new \<and>
       (case t of
          None \<Rightarrow> answered new
        | Some th \<Rightarrow> \<exists>pre c err. new = pre @ [(c, Failed err)] \<and> th = ApiError err \<and> answered pre)"
proof (induction ss arbitrary: r)
  case Nil
  then show ?case by (simp add: answered_def)
next
  case (Cons s ss)
  let ?c = "StudentsDelete (row_index s)"
  obtain t1 r1 where c: "call_or_throw srv ?c r = (t1, r1)" by (cases "call_or_throw srv ?c r")
  from call_or_throw_result[OF c] show ?case
  proof
    assume ok: "t1 = None \<and> (\<exists>resp. snd r1 = snd r @ [(?c, resp)] \<and> (\<forall>err. resp \<noteq> Failed err))"
    then obtain resp where resp: "snd r1 = snd r @ [(?c, resp)]" "\<forall>err. resp \<noteq> Failed err"
      by blast
    have rest: "for_each (\<lambda>s. call_or_throw srv (StudentsDelete (row_index s))) ss r1 = (t, r')"
      using Cons.prems c ok by simp
    from Cons.IH[OF rest] obtain new where new: "snd r' = snd r1 @ new"
      "case t of None \<Rightarrow> answered new
        | Some th \<Rightarrow> \<exists>pre c err. new = pre @ [(c, Failed err)] \<and> th = ApiError err \<and> answered pre"
      by blast
    have app: "snd r' = snd r @ ((?c, resp) # new)" using new(1) resp(1) by simp
    show ?thesis
    proof (cases t)
      case None
      then have "answered ((?c, resp) # new)" using new(2) resp(2) by (simp add: answered_def)
      then show ?thesis using app None by auto
    next
      case (Some th)
      then obtain pre c' err where p: "new = pre @ [(c', Failed err)]" "th = ApiError err"
        "answered pre" using new(2) by auto
      have "(?c, resp) # new = ((?c, resp) # pre) @ [(c', Failed err)]" using p(1) by simp
      moreover have "answered ((?c, resp) # pre)" using p(3) resp(2) by (simp add: answered_def)
      ultimately show ?thesis using app Some p(2) by (auto simp del: append_Cons)
    qed
  next
    assume "\<exists>err. t1 = Some (ApiError err) \<and> snd r1 = snd r @ [(?c, Failed err)]"
    then obtain err where e: "t1 = Some (ApiError err)" "snd r1 = snd r @ [(?c, Failed err)]"
      by blast
    have "t = Some (ApiError err)" "r' = r1" using Cons.prems c e by auto
    moreover have "[(?c, Failed err)] = [] @ [(?c, Failed err)] \<and> answered []"
      by (simp add: answered_def)
    ultimately show ?thesis using e(2) by (auto simp del: append_Nil)
  qed
qed

lemma failed_delete_is_last:
  assumes later: "\<forall>step \<in> set rest. adds_only (\<lambda>c. \<not> is_students_delete c) step"
    and run: "for_each (\<lambda>step. step) (delete_students_step srv wd # rest) (e0, []) = (t, r)"
    and mem: "(StudentsDelete i, Failed err) \<in> set (snd r)"
  shows "last (snd r) = (StudentsDelete i, Failed err) \<and> t = Some (ApiError err)"
proof -
  obtain t1 r1 where d: "delete_students_step srv wd (e0, []) = (t1, r1)"
    by (cases "delete_students_step srv wd (e0, [])")
  from delete_loop_result[OF d[unfolded delete_students_step_def]]
  obtain new where new: "snd r1 = new"
    and shape: "case t1 of None \<Rightarrow> answered new
        | Some th \<Rightarrow> \<exists>pre c err. new = pre @ [(c, Failed err)] \<and> th = ApiError err \<and> answered pre"
    by auto
  show ?thesis
  proof (cases t1)
    case (Some th)
    then obtain pre c err' where p: "new = pre @ [(c, Failed err')]" "th = ApiError err'"
      "answered pre" using shape by auto
    have tr: "t = Some th" "r = r1" using run d Some by auto
    have "(StudentsDelete i, Failed err) \<notin> set pre" using p(3) by (auto simp: answered_def)
    then have "(StudentsDelete i, Failed err) = (c, Failed err')"
      using mem tr(2) new p(1) by auto
    then show ?thesis using tr new p by simp
  next
    case None
    then have clean: "answered new" using shape by simp
    have cont: "for_each (\<lambda>step. step) rest r1 = (t, r)" using run d None by simp
    have "adds_only (\<lambda>c. \<not> is_students_delete c) (for_each (\<lambda>step. step) rest)"
      using later by (rule adds_only_steps)
    then obtain n2 where n2: "snd (snd (for_each (\<lambda>step. step) rest r1)) = snd r1 @ n2"
      "\<forall>p \<in> set n2. \<not> is_students_delete (fst p)" by (rule adds_onlyD)
    have "snd r = new @ n2" using n2(1) cont new by simp
    moreover have "(StudentsDelete i, Failed err) \<notin> set new"
      using clean by (auto simp: answered_def)
    moreover have "(StudentsDelete i, Failed err) \<notin> set n2"
      using n2(2) by (auto simp: is_students_delete_def)
    ultimately show ?thesis using mem by simp
  qed
qed

lemma later_steps_delete_no_student:
  "\<forall>step \<in> set [add_students_step srv wd, delete_nrts_step srv wd, update_nrts_step srv wd,
        add_nrts_step srv wd].
     adds_only (\<lambda>c. \<not> is_students_delete c) step"
proof -
  let ?Q = "\<lambda>c. \<not> is_students_delete c"
  have 2: "adds_only ?Q (add_students_step srv wd)"
    by (rule adds_only_add_students) (simp add: is_students_delete_def)
  have 3: "adds_only ?Q (delete_nrts_step srv wd)"
    by (rule adds_only_delete_nrts) (simp add: is_students_delete_def)
  have 4: "adds_only ?Q (update_nrts_step srv wd)"
    by (rule adds_only_update_nrts) (simp_all add: is_students_delete_def)
  have 5: "adds_only ?Q (add_nrts_step srv wd)"
    by (rule adds_only_add_nrts) (simp add: is_students_delete_def)
  show ?thesis using 2 3 4 5 by simp
qed

lemma assign_steps_delete_no_student:
  "adds_only (\<lambda>c. \<not> is_students_delete c) (assign_rts_step srv wd) \<and>
   adds_only (\<lambda>c. \<not> is_students_delete c) (assign_nrts_step srv wd)"
  unfolding assign_rts_step_def assign_nrts_step_def
  by (auto intro!: adds_only_for_each adds_only_assign_one simp: is_students_delete_def)

lemma sync_deletes_no_student:
  "adds_only (\<lambda>c. \<not> is_students_delete c) (\<lambda>r. if c then sync_step srv r else (None, r))"
  by (rule adds_only_if, rule adds_only_sync) (simp add: is_students_delete_def)

text \<open>
  Claim C5, amended.  In both commit sequences (the final confirmation and the review
  step) a per-student delete call that fails is the last call of the commit: no further
  staged deletion and no later step is issued, and the commit ends by showing the error.
\<close>

theorem failed_student_deletion_aborts_commit:
  "((StudentsDelete i, Failed err) \<in> set (trace_of (processWorkflow srv wd e0)) \<longrightarrow>
      last (trace_of (processWorkflow srv wd e0)) = (StudentsDelete i, Failed err) \<and>
      fst (processWorkflow srv wd e0) =
        ShowError (error_message ''Error processing workflow'' (ApiError err))) \<and>
   ((StudentsDelete i, Failed err) \<in> set (trace_of (handleApplyChanges srv fin wd e0)) \<longrightarrow>
      last (trace_of (handleApplyChanges srv fin wd e0)) = (StudentsDelete i, Failed err) \<and>
      fst (handleApplyChanges srv fin wd e0) =
        ShowError (error_message ''Error applying changes'' (ApiError err)))"
proof (intro conjI impI)
  let ?rest = "[add_students_step srv wd, delete_nrts_step srv wd, update_nrts_step srv wd,
         add_nrts_step srv wd, assign_rts_step srv wd, assign_nrts_step srv wd,
         (\<lambda>r. if hasChanges_all wd then sync_step srv r else (None, r))]"
  have later: "\<forall>step \<in> set ?rest. adds_only (\<lambda>c. \<not> is_students_delete c) step"
    using later_steps_delete_no_student[of srv wd] assign_steps_delete_no_student[of srv wd]
      sync_deletes_no_student[of "hasChanges_all wd" srv]
    by simp
  obtain t r where run:
    "for_each (\<lambda>step. step) (delete_students_step srv wd # ?rest) (e0, []) = (t, r)"
    by (cases "for_each (\<lambda>step. step) (delete_students_step srv wd # ?rest) (e0, [])")
  have tr: "trace_of (processWorkflow srv wd e0) = snd r"
    using run by (simp add: processWorkflow_def trace_of_def split: option.splits)
  assume "(StudentsDelete i, Failed err) \<in> set (trace_of (processWorkflow srv wd e0))"
  then have mem: "(StudentsDelete i, Failed err) \<in> set (snd r)" using tr by simp
  from failed_delete_is_last[OF later run mem]
  have res: "last (snd r) = (StudentsDelete i, Failed err)" "t = Some (ApiError err)" by auto
  show "last (trace_of (processWorkflow srv wd e0)) = (StudentsDelete i, Failed err)"
    using res(1) tr by simp
  show "fst (processWorkflow srv wd e0) =
        ShowError (error_message ''Error processing workflow'' (ApiError err))"
    using run res(2) by (simp add: processWorkflow_def)
next
  let ?rest = "[add_students_step srv wd, delete_nrts_step srv wd, update_nrts_step srv wd,
         add_nrts_step srv wd, (\<lambda>r. if fin then sync_step srv r else (None, r))]"
  have later: "\<forall>step \<in> set ?rest. adds_only (\<lambda>c. \<not> is_students_delete c) step"
    using later_steps_delete_no_student[of srv wd] sync_deletes_no_student[of fin srv]
    by simp
  obtain t r where run:
    "for_each (\<lambda>step. step) (delete_students_step srv wd # ?rest) (e0, []) = (t, r)"
    by (cases "for_each (\<lambda>step. step) (delete_students_step srv wd # ?rest) (e0, [])")
  assume a: "(StudentsDelete i, Failed err) \<in> set (trace_of (handleApplyChanges srv fin wd e0))"
  then have hc: "hasChanges_review wd"
    by (auto simp: handleApplyChanges_def trace_of_def split: if_splits)
  have tr: "trace_of (handleApplyChanges srv fin wd e0) = snd r"
    using run hc by (simp add: handleApplyChanges_def trace_of_def split: option.splits)
  have mem: "(StudentsDelete i, Failed err) \<in> set (snd r)" using a tr by simp
  from failed_delete_is_last[OF later run mem]
  have res: "last (snd r) = (StudentsDelete i, Failed err)" "t = Some (ApiError err)" by auto
  show "last (trace_of (handleApplyChanges srv fin wd e0)) = (StudentsDelete i, Failed err)"
    using res(1) tr by simp
  show "fst (handleApplyChanges srv fin wd e0) =
        ShowError (error_message ''Error applying changes'' (ApiError err))"
    using run res(2) hc by (simp add: handleApplyChanges_def)
qed

text \<open>Witness for C5: the server refuses to delete student 1, the first of two.\<close>

theorem failed_student_deletion_aborts_commit_witness:
  "(StudentsDelete 1, Failed \<lparr> http_status = Some 500, error_text = Some ''locked'' \<rparr>)
     \<in> set (trace_of (processWorkflow refusing_server two_deletions ())) \<and>
   (StudentsDelete 1, Failed \<lparr> http_status = Some 500, error_text = Some ''locked'' \<rparr>)
     \<in> set (trace_of (handleApplyChanges refusing_server True two_deletions ())) \<and>
   last (trace_of (processWorkflow refusing_server two_deletions ())) =
     (StudentsDelete 1, Failed \<lparr> http_status = Some 500, error_text = Some ''locked'' \<rparr>) \<and>
   fst (processWorkflow refusing_server two_deletions ()) = ShowError ''locked'' \<and>
   last (trace_of (handleApplyChanges refusing_server True two_deletions ())) =
     (StudentsDelete 1, Failed \<lparr> http_status = Some 500, error_text = Some ''locked'' \<rparr>) \<and>
   fst (handleApplyChanges refusing_server True two_deletions ()) = ShowError ''locked''"
proof -
  let ?f = "Failed \<lparr> http_status = Some 500, error_text = Some ''locked'' \<rparr>"
  have h1: "(StudentsDelete 1, ?f) \<in> set (trace_of (processWorkflow refusing_server two_deletions ()))"
    by code_simp
  have h2: "(StudentsDelete 1, ?f)
      \<in> set (trace_of (handleApplyChanges refusing_server True two_deletions ()))"
    by code_simp
  have m1: "error_message ''Error processing workflow''
              (ApiError \<lparr> http_status = Some 500, error_text = Some ''locked'' \<rparr>) = ''locked''"
    by code_simp
  have m2: "error_message ''Error applying changes''
              (ApiError \<lparr> http_status = Some 500, error_text = Some ''locked'' \<rparr>) = ''locked''"
    by code_simp
  from failed_student_deletion_aborts_commit[of 1
      "\<lparr> http_status = Some 500, error_text = Some ''locked'' \<rparr>" refusing_server two_deletions "()" True]
    h1 h2 m1 m2
  show ?thesis by simp
qed

text \<open>
  Claim C5, as stated, says that the remaining deletions and the later steps still run.
  With a server that accepts everything the deletion of student 2 and the assignment of
  student 3 are issued; when the deletion of student 1 fails, neither is.
\<close>

theorem failed_deletion_blocks_the_rest_counterexample:
  "StudentsDelete 2 \<in> set (map fst (trace_of (processWorkflow accepting_server two_deletions ()))) \<and>
   AssignRT (Some 3) ''rt@x.com''
     \<in> set (map fst (trace_of (processWorkflow accepting_server two_deletions ()))) \<and>
   StudentsDelete 2 \<notin> set (map fst (trace_of (processWorkflow refusing_server two_deletions ()))) \<and>
   AssignRT (Some 3) ''rt@x.com''
     \<notin> set (map fst (trace_of (processWorkflow refusing_server two_deletions ()))) \<and>
   StudentsDelete 2
     \<notin> set (map fst (trace_of (handleApplyChanges refusing_server True two_deletions ())))"
  by code_simp

end
